theory Spec2Isabelle
  imports Main
begin

section \<open>The decoder interface of lingvo/core/base_decoder.py\<close>

text \<open>
  The module defines two classes, \<open>BaseDecoder\<close> and \<open>BaseBeamSearchDecoder\<close>.
  Their methods call code the module does not contain: the methods a subclass
  overrides, the three beam-search callbacks a subclass defines, and the two child
  layers (a beam-search helper and a target-sequence sampler). Such code is a
  parameter of the model. It runs in a world \<open>'w\<close> (the computation graph under
  construction and whatever else it touches), may raise, and is given nothing
  else of the state.

  Python values whose structure the module never inspects (theta, encoder outputs,
  targets, predictions, metrics, results of the engines) have the type \<open>'v\<close>; the
  callbacks have the type \<open>'c\<close>.
\<close>

subsection \<open>Exceptions\<close>

datatype error =
    NotImplementedError string
  | AttributeError string
  | Raised string

subsection \<open>State\<close>

text \<open>
  Params objects are mutable and shared by reference, so they live in a heap.
  The list \<open>calls\<close> records, in order, every call that goes through method
  resolution (a method a subclass may override) or to a child layer.
\<close>

type_synonym addr = nat

datatype ('v, 'c) call =
    ComputePredictions_call 'v 'v 'v
  | ComputeLoss_call 'v 'v 'v
  | AddExtraDecodingInfo_call 'v 'v
  | CreateChild_call string
  | BeamSearchDecode_call 'v 'v int 'c 'c 'c
  | Sample_call 'v 'v 'v 'c 'c 'c

text \<open>The callbacks a call hands to a child layer, in the order init, pre-step, post-step.\<close>

fun callbacks_of :: "('v, 'c) call \<Rightarrow> ('c \<times> 'c \<times> 'c) option" where
  "callbacks_of (BeamSearchDecode_call theta encoder_outputs n init_cb pre_cb post_cb) =
     Some (init_cb, pre_cb, post_cb)"
| "callbacks_of (Sample_call theta encoder_outputs random_seed init_cb pre_cb post_cb) =
     Some (init_cb, pre_cb, post_cb)"
| "callbacks_of c = None"

record ('p, 'v, 'c, 'w) state =
  heap :: "addr \<Rightarrow> 'p"
  calls :: "('v, 'c) call list"
  world :: 'w

type_synonym ('w, 'a) extern = "'w \<Rightarrow> (error + 'a) \<times> 'w"

text \<open>Such a call: it is recorded, and the callee runs in the world.\<close>

definition invoke ::
  "('v, 'c) call \<Rightarrow> ('w, 'a) extern \<Rightarrow> ('p, 'v, 'c, 'w) state
     \<Rightarrow> (error + 'a) \<times> ('p, 'v, 'c, 'w) state" where
  "invoke c f s =
     (case f (world s) of (r, w') \<Rightarrow> (r, s\<lparr>calls := calls s @ [c], world := w'\<rparr>))"

text \<open>
  Reading an attribute that a subclass may or may not define: \<open>None\<close> is the
  attribute missing, and the read raises \<open>AttributeError\<close>.
\<close>

definition getattr :: "string \<Rightarrow> 'a option \<Rightarrow> error + 'a" where
  "getattr name a = (case a of None \<Rightarrow> Inl (AttributeError name) | Some x \<Rightarrow> Inr x)"

text \<open>An argument with a default value: \<open>None\<close> is the argument left out.\<close>

definition default_arg :: "'a \<Rightarrow> 'a option \<Rightarrow> 'a" where
  "default_arg d a = (case a of None \<Rightarrow> d | Some x \<Rightarrow> x)"

subsection \<open>DecoderOutput\<close>

record 'v DecoderOutput =
  metrics :: 'v
  predictions :: 'v
  per_sequence :: 'v

subsection \<open>BaseDecoder\<close>

text \<open>
  An instance. \<open>class_repr\<close> is the text of \<open>type(self)\<close>, \<open>self_params\<close> is the
  reference \<open>self.params\<close> and \<open>self_theta\<close> is \<open>self.theta\<close>. An override field
  is \<open>None\<close> when the class of the instance does not override the method, so that
  the method of the base class runs.
\<close>

record ('v, 'w) BaseDecoder =
  class_repr :: string
  self_params :: addr
  self_theta :: 'v
  ComputePredictions_override :: "('v \<Rightarrow> 'v \<Rightarrow> 'v \<Rightarrow> ('w, 'v) extern) option"
  ComputeLoss_override :: "('v \<Rightarrow> 'v \<Rightarrow> 'v \<Rightarrow> ('w, 'v \<times> 'v) extern) option"

definition BaseDecoder_UpdateTargetVocabSize :: "'p \<Rightarrow> 'n \<Rightarrow> 'm option \<Rightarrow> error + 'p" where
  "BaseDecoder_UpdateTargetVocabSize p vocab_size wpm_model =
     Inl (NotImplementedError ''Abstract method'')"

definition BaseDecoder_ComputePredictions ::
  "('v, 'w, 'z) BaseDecoder_scheme \<Rightarrow> 'v \<Rightarrow> 'v \<Rightarrow> 'v \<Rightarrow> ('w, 'v) extern" where
  "BaseDecoder_ComputePredictions self theta encoder_outputs targets w =
     (Inl (NotImplementedError (''Abstract method: '' @ class_repr self)), w)"

definition BaseDecoder_ComputeLoss ::
  "('v, 'w, 'z) BaseDecoder_scheme \<Rightarrow> 'v \<Rightarrow> 'v \<Rightarrow> 'v \<Rightarrow> ('w, 'v \<times> 'v) extern" where
  "BaseDecoder_ComputeLoss self theta preds targets w =
     (Inl (NotImplementedError (''Abstract method: '' @ class_repr self)), w)"

text \<open>
  Method resolution: the method that \<open>self.ComputePredictions\<close> and \<open>self.ComputeLoss\<close>
  denote on an instance, and the call of it.
\<close>

definition ComputePredictions_method ::
  "('v, 'w, 'z) BaseDecoder_scheme \<Rightarrow> 'v \<Rightarrow> 'v \<Rightarrow> 'v \<Rightarrow> ('w, 'v) extern" where
  "ComputePredictions_method self =
     (case ComputePredictions_override self of
        None \<Rightarrow> BaseDecoder_ComputePredictions self
      | Some f \<Rightarrow> f)"

definition ComputeLoss_method ::
  "('v, 'w, 'z) BaseDecoder_scheme \<Rightarrow> 'v \<Rightarrow> 'v \<Rightarrow> 'v \<Rightarrow> ('w, 'v \<times> 'v) extern" where
  "ComputeLoss_method self =
     (case ComputeLoss_override self of
        None \<Rightarrow> BaseDecoder_ComputeLoss self
      | Some f \<Rightarrow> f)"

definition ComputePredictions ::
  "('v, 'w, 'z) BaseDecoder_scheme \<Rightarrow> 'v \<Rightarrow> 'v \<Rightarrow> 'v \<Rightarrow> ('p, 'v, 'c, 'w) state
     \<Rightarrow> (error + 'v) \<times> ('p, 'v, 'c, 'w) state" where
  "ComputePredictions self theta encoder_outputs targets =
     invoke (ComputePredictions_call theta encoder_outputs targets)
       (ComputePredictions_method self theta encoder_outputs targets)"

definition ComputeLoss ::
  "('v, 'w, 'z) BaseDecoder_scheme \<Rightarrow> 'v \<Rightarrow> 'v \<Rightarrow> 'v \<Rightarrow> ('p, 'v, 'c, 'w) state
     \<Rightarrow> (error + 'v \<times> 'v) \<times> ('p, 'v, 'c, 'w) state" where
  "ComputeLoss self theta preds targets =
     invoke (ComputeLoss_call theta preds targets)
       (ComputeLoss_method self theta preds targets)"

definition FProp ::
  "('v, 'w, 'z) BaseDecoder_scheme \<Rightarrow> 'v \<Rightarrow> 'v \<Rightarrow> 'v \<Rightarrow> ('p, 'v, 'c, 'w) state
     \<Rightarrow> (error + 'v DecoderOutput) \<times> ('p, 'v, 'c, 'w) state" where
  "FProp self theta encoder_outputs targets s =
     (case ComputePredictions self theta encoder_outputs targets s of
        (Inl e, s1) \<Rightarrow> (Inl e, s1)
      | (Inr preds, s1) \<Rightarrow>
          (case ComputeLoss self theta preds targets s1 of
             (Inl e, s2) \<Rightarrow> (Inl e, s2)
           | (Inr (mets, per_seq), s2) \<Rightarrow>
               (Inr \<lparr>metrics = mets, predictions = preds, per_sequence = per_seq\<rparr>, s2)))"

subsection \<open>Params\<close>

text \<open>
  The params of the decoder, of the beam-search helper and of the sampler all define
  \<open>target_sos_id\<close>, \<open>target_eos_id\<close> and \<open>target_seq_len\<close>. The three fields are a record
  of their own, which each of the three params records extends, so that
  \<open>p.beam_search.target_seq_len\<close> reads \<open>target_seq_len (beam_search p)\<close>. The fields a
  params object has beyond those the module names (those of \<open>BaseLayer.Params()\<close>,
  of the helpers, of a subclass) are the extension part of its record.
\<close>

record target_params =
  target_sos_id :: int
  target_eos_id :: int
  target_seq_len :: int

record BeamSearchHelper_Params = target_params +
  num_hyps_per_beam :: int

record ('h, 't) BaseBeamSearchDecoder_Params = target_params +
  packed_input :: bool
  beam_search :: "'h BeamSearchHelper_Params_scheme"
  target_sequence_sampler :: "'t target_params_scheme"

text \<open>
  \<open>BaseBeamSearchDecoder.Params()\<close>, \<open>BaseDecoder.Params()\<close> included. The results of
  \<open>BaseLayer.Params()\<close>, \<open>BeamSearchHelper.Params()\<close> and \<open>TargetSequenceSampler.Params()\<close>
  are arguments.
\<close>

definition BaseBeamSearchDecoder_Params ::
  "'x \<Rightarrow> 'h BeamSearchHelper_Params_scheme \<Rightarrow> 't target_params_scheme
     \<Rightarrow> ('h, 't, 'x) BaseBeamSearchDecoder_Params_scheme" where
  "BaseBeamSearchDecoder_Params base_layer_params beam_search_helper_params sampler_params =
     \<lparr>target_sos_id = 1, target_eos_id = 2, target_seq_len = 0, packed_input = False,
      beam_search = beam_search_helper_params,
      target_sequence_sampler = sampler_params, \<dots> = base_layer_params\<rparr>"

subsection \<open>BaseBeamSearchDecoder\<close>

text \<open>
  The class defines none of \<open>_InitBeamSearchStateCallback\<close>, \<open>_PreBeamSearchStepCallback\<close>
  and \<open>_PostBeamSearchStepCallback\<close>: an instance has them when its class does. The
  fields \<open>self_beam_search\<close> and \<open>self_target_sequence_sampler\<close> are the child layers
  \<open>self.beam_search\<close> and \<open>self.target_sequence_sampler\<close>, each given by the one method
  the module calls on it (\<open>BeamSearchDecode\<close> and \<open>Sample\<close>).
\<close>

type_synonym ('v, 'c, 'w) BeamSearchHelper =
  "'v \<Rightarrow> 'v \<Rightarrow> int \<Rightarrow> 'c \<Rightarrow> 'c \<Rightarrow> 'c \<Rightarrow> ('w, 'v) extern"

type_synonym ('v, 'c, 'w) TargetSequenceSampler =
  "'v \<Rightarrow> 'v \<Rightarrow> 'v \<Rightarrow> 'c \<Rightarrow> 'c \<Rightarrow> 'c \<Rightarrow> ('w, 'v) extern"

record ('v, 'c, 'w) BaseBeamSearchDecoder = "('v, 'w) BaseDecoder" +
  AddExtraDecodingInfo_override :: "('v \<Rightarrow> 'v \<Rightarrow> ('w, 'v) extern) option"
  InitBeamSearchStateCallback :: "'c option"
  PreBeamSearchStepCallback :: "'c option"
  PostBeamSearchStepCallback :: "'c option"
  self_beam_search :: "('v, 'c, 'w) BeamSearchHelper"
  self_target_sequence_sampler :: "('v, 'c, 'w) TargetSequenceSampler"

definition BaseBeamSearchDecoder_UpdateTargetVocabSize ::
  "'p \<Rightarrow> 'n \<Rightarrow> 'm option \<Rightarrow> error + 'p" where
  "BaseBeamSearchDecoder_UpdateTargetVocabSize p vocab_size wpm_model =
     Inl (NotImplementedError ''Abstract method'')"

text \<open>An assignment to a field of the params object at \<open>p\<close>.\<close>

definition assign ::
  "addr \<Rightarrow> ('p \<Rightarrow> 'p) \<Rightarrow> ('p, 'v, 'c, 'w) state \<Rightarrow> ('p, 'v, 'c, 'w) state" where
  "assign p f s = s\<lparr>heap := (heap s)(p := f (heap s p))\<rparr>"

text \<open>
  \<open>self.CreateChild(name, params)\<close>: the child layer is built from the params it is
  given, by \<open>instantiate\<close> (the child's class, which the module does not contain).
\<close>

definition CreateChild ::
  "string \<Rightarrow> ('k \<Rightarrow> ('w, 'l) extern) \<Rightarrow> 'k \<Rightarrow> ('p, 'v, 'c, 'w) state
     \<Rightarrow> (error + 'l) \<times> ('p, 'v, 'c, 'w) state" where
  "CreateChild name instantiate child_params =
     invoke (CreateChild_call name) (instantiate child_params)"

text \<open>
  The constructor. \<open>super_init\<close> is \<open>super(BaseBeamSearchDecoder, self).__init__(params)\<close>
  with the decorator \<open>base_layer.initializer\<close>: it returns the instance with
  \<open>self.params\<close> bound. The fields \<open>self_beam_search\<close> and
  \<open>self_target_sequence_sampler\<close> of the instance the constructor is given are
  overwritten, whatever they hold.
\<close>

definition BaseBeamSearchDecoder_init ::
  "(('v, 'c, 'w, 'z) BaseBeamSearchDecoder_scheme \<Rightarrow> addr
       \<Rightarrow> (('h, 't, 'x) BaseBeamSearchDecoder_Params_scheme, 'v, 'c, 'w) state
       \<Rightarrow> (error + ('v, 'c, 'w, 'z) BaseBeamSearchDecoder_scheme)
           \<times> (('h, 't, 'x) BaseBeamSearchDecoder_Params_scheme, 'v, 'c, 'w) state)
   \<Rightarrow> ('h BeamSearchHelper_Params_scheme \<Rightarrow> ('w, ('v, 'c, 'w) BeamSearchHelper) extern)
   \<Rightarrow> ('t target_params_scheme \<Rightarrow> ('w, ('v, 'c, 'w) TargetSequenceSampler) extern)
   \<Rightarrow> ('v, 'c, 'w, 'z) BaseBeamSearchDecoder_scheme \<Rightarrow> addr
   \<Rightarrow> (('h, 't, 'x) BaseBeamSearchDecoder_Params_scheme, 'v, 'c, 'w) state
   \<Rightarrow> (error + ('v, 'c, 'w, 'z) BaseBeamSearchDecoder_scheme)
       \<times> (('h, 't, 'x) BaseBeamSearchDecoder_Params_scheme, 'v, 'c, 'w) state" where
  "BaseBeamSearchDecoder_init super_init new_beam_search new_sampler self0 params_arg s =
     (case super_init self0 params_arg s of
        (Inl e, s0) \<Rightarrow> (Inl e, s0)
      | (Inr self, s0) \<Rightarrow>
          (let p = self_params self;
               s1 = assign p (\<lambda>q. q\<lparr>beam_search :=
                      (beam_search q)\<lparr>target_seq_len := target_seq_len q\<rparr>\<rparr>) s0;
               s2 = assign p (\<lambda>q. q\<lparr>beam_search :=
                      (beam_search q)\<lparr>target_sos_id := target_sos_id q\<rparr>\<rparr>) s1;
               s3 = assign p (\<lambda>q. q\<lparr>beam_search :=
                      (beam_search q)\<lparr>target_eos_id := target_eos_id q\<rparr>\<rparr>) s2
           in case CreateChild ''beam_search'' new_beam_search (beam_search (heap s3 p)) s3 of
                (Inl e, s4) \<Rightarrow> (Inl e, s4)
              | (Inr child1, s4) \<Rightarrow>
                  (let self1 = self\<lparr>self_beam_search := child1\<rparr>;
                       s5 = assign p (\<lambda>q. q\<lparr>target_sequence_sampler :=
                              (target_sequence_sampler q)
                                \<lparr>target_seq_len := target_seq_len q\<rparr>\<rparr>) s4;
                       s6 = assign p (\<lambda>q. q\<lparr>target_sequence_sampler :=
                              (target_sequence_sampler q)
                                \<lparr>target_sos_id := target_sos_id q\<rparr>\<rparr>) s5;
                       s7 = assign p (\<lambda>q. q\<lparr>target_sequence_sampler :=
                              (target_sequence_sampler q)
                                \<lparr>target_eos_id := target_eos_id q\<rparr>\<rparr>) s6
                   in case CreateChild ''target_sequence_sampler'' new_sampler
                             (target_sequence_sampler (heap s7 p)) s7 of
                        (Inl e, s8) \<Rightarrow> (Inl e, s8)
                      | (Inr child2, s8) \<Rightarrow>
                          (Inr (self1\<lparr>self_target_sequence_sampler := child2\<rparr>), s8))))"

text \<open>\<open>AddExtraDecodingInfo\<close>: the method of the class, and method resolution.\<close>

definition BaseBeamSearchDecoder_AddExtraDecodingInfo ::
  "('v, 'c, 'w, 'z) BaseBeamSearchDecoder_scheme \<Rightarrow> 'v \<Rightarrow> 'v \<Rightarrow> ('w, 'v) extern" where
  "BaseBeamSearchDecoder_AddExtraDecodingInfo self encoder_outputs targets w =
     (Inr encoder_outputs, w)"

definition AddExtraDecodingInfo_method ::
  "('v, 'c, 'w, 'z) BaseBeamSearchDecoder_scheme \<Rightarrow> 'v \<Rightarrow> 'v \<Rightarrow> ('w, 'v) extern" where
  "AddExtraDecodingInfo_method self =
     (case AddExtraDecodingInfo_override self of
        None \<Rightarrow> BaseBeamSearchDecoder_AddExtraDecodingInfo self
      | Some f \<Rightarrow> f)"

definition AddExtraDecodingInfo ::
  "('v, 'c, 'w, 'z) BaseBeamSearchDecoder_scheme \<Rightarrow> 'v \<Rightarrow> 'v \<Rightarrow> ('p, 'v, 'c, 'w) state
     \<Rightarrow> (error + 'v) \<times> ('p, 'v, 'c, 'w) state" where
  "AddExtraDecodingInfo self encoder_outputs targets =
     invoke (AddExtraDecodingInfo_call encoder_outputs targets)
       (AddExtraDecodingInfo_method self encoder_outputs targets)"

text \<open>
  The arguments of the call are evaluated left to right, so a callback the
  instance does not have raises before the engine is reached.
\<close>

definition BeamSearchDecodeWithTheta ::
  "('v, 'c, 'w, 'z) BaseBeamSearchDecoder_scheme \<Rightarrow> 'v \<Rightarrow> 'v \<Rightarrow> int option
     \<Rightarrow> ('p, 'v, 'c, 'w) state \<Rightarrow> (error + 'v) \<times> ('p, 'v, 'c, 'w) state" where
  "BeamSearchDecodeWithTheta self theta encoder_outputs num_hyps_per_beam_override s =
     (let n = default_arg 0 num_hyps_per_beam_override in
      case getattr ''_InitBeamSearchStateCallback'' (InitBeamSearchStateCallback self) of
        Inl e \<Rightarrow> (Inl e, s)
      | Inr init_cb \<Rightarrow>
      (case getattr ''_PreBeamSearchStepCallback'' (PreBeamSearchStepCallback self) of
        Inl e \<Rightarrow> (Inl e, s)
      | Inr pre_cb \<Rightarrow>
      (case getattr ''_PostBeamSearchStepCallback'' (PostBeamSearchStepCallback self) of
        Inl e \<Rightarrow> (Inl e, s)
      | Inr post_cb \<Rightarrow>
          invoke (BeamSearchDecode_call theta encoder_outputs n init_cb pre_cb post_cb)
            (self_beam_search self theta encoder_outputs n init_cb pre_cb post_cb) s)))"

definition BeamSearchDecode ::
  "('v, 'c, 'w, 'z) BaseBeamSearchDecoder_scheme \<Rightarrow> 'v \<Rightarrow> int option
     \<Rightarrow> ('p, 'v, 'c, 'w) state \<Rightarrow> (error + 'v) \<times> ('p, 'v, 'c, 'w) state" where
  "BeamSearchDecode self encoder_outputs num_hyps_per_beam_override =
     BeamSearchDecodeWithTheta self (self_theta self) encoder_outputs
       (Some (default_arg 0 num_hyps_per_beam_override))"

definition SampleTargetSequences ::
  "('v, 'c, 'w, 'z) BaseBeamSearchDecoder_scheme \<Rightarrow> 'v \<Rightarrow> 'v \<Rightarrow> 'v
     \<Rightarrow> ('p, 'v, 'c, 'w) state \<Rightarrow> (error + 'v) \<times> ('p, 'v, 'c, 'w) state" where
  "SampleTargetSequences self theta encoder_outputs random_seed s =
     (case getattr ''_InitBeamSearchStateCallback'' (InitBeamSearchStateCallback self) of
        Inl e \<Rightarrow> (Inl e, s)
      | Inr init_cb \<Rightarrow>
      (case getattr ''_PreBeamSearchStepCallback'' (PreBeamSearchStepCallback self) of
        Inl e \<Rightarrow> (Inl e, s)
      | Inr pre_cb \<Rightarrow>
      (case getattr ''_PostBeamSearchStepCallback'' (PostBeamSearchStepCallback self) of
        Inl e \<Rightarrow> (Inl e, s)
      | Inr post_cb \<Rightarrow>
          invoke (Sample_call theta encoder_outputs random_seed init_cb pre_cb post_cb)
            (self_target_sequence_sampler self theta encoder_outputs random_seed
               init_cb pre_cb post_cb) s)))"

subsection \<open>Sequences of operations on an instance\<close>

datatype 'v op =
    FProp_op 'v 'v 'v
  | ComputePredictions_op 'v 'v 'v
  | ComputeLoss_op 'v 'v 'v
  | AddExtraDecodingInfo_op 'v 'v
  | BeamSearchDecode_op 'v "int option"
  | BeamSearchDecodeWithTheta_op 'v 'v "int option"
  | SampleTargetSequences_op 'v 'v 'v

text \<open>The state an operation leaves, whether it returns or raises.\<close>

fun exec ::
  "('v, 'c, 'w, 'z) BaseBeamSearchDecoder_scheme \<Rightarrow> 'v op \<Rightarrow> ('p, 'v, 'c, 'w) state
     \<Rightarrow> ('p, 'v, 'c, 'w) state" where
  "exec self (FProp_op theta encoder_outputs targets) s =
     snd (FProp self theta encoder_outputs targets s)"
| "exec self (ComputePredictions_op theta encoder_outputs targets) s =
     snd (ComputePredictions self theta encoder_outputs targets s)"
| "exec self (ComputeLoss_op theta preds targets) s =
     snd (ComputeLoss self theta preds targets s)"
| "exec self (AddExtraDecodingInfo_op encoder_outputs targets) s =
     snd (AddExtraDecodingInfo self encoder_outputs targets s)"
| "exec self (BeamSearchDecode_op encoder_outputs n) s =
     snd (BeamSearchDecode self encoder_outputs n s)"
| "exec self (BeamSearchDecodeWithTheta_op theta encoder_outputs n) s =
     snd (BeamSearchDecodeWithTheta self theta encoder_outputs n s)"
| "exec self (SampleTargetSequences_op theta encoder_outputs random_seed) s =
     snd (SampleTargetSequences self theta encoder_outputs random_seed s)"

definition execs ::
  "('v, 'c, 'w, 'z) BaseBeamSearchDecoder_scheme \<Rightarrow> 'v op list \<Rightarrow> ('p, 'v, 'c, 'w) state
     \<Rightarrow> ('p, 'v, 'c, 'w) state" where
  "execs self ops s = fold (exec self) ops s"

subsection \<open>The beam-search helper\<close>

text \<open>
  Modelled from the spec: \<open>BeamSearchHelper.BeamSearchDecode\<close>
  (lingvo/core/beam_search_helper.py is not among the sources). The spec and the
  docstring of \<open>BaseBeamSearchDecoder.BeamSearchDecode\<close> say that a positive override
  replaces \<open>p.num_hyps_per_beam\<close> for the call and that any other value is ignored.
  The search itself, given the number of hypotheses per beam, is the argument \<open>search\<close>.
\<close>

definition BeamSearchHelper_BeamSearchDecode ::
  "'h BeamSearchHelper_Params_scheme
     \<Rightarrow> (int \<Rightarrow> 'v \<Rightarrow> 'v \<Rightarrow> 'c \<Rightarrow> 'c \<Rightarrow> 'c \<Rightarrow> ('w, 'v) extern)
     \<Rightarrow> ('v, 'c, 'w) BeamSearchHelper" where
  "BeamSearchHelper_BeamSearchDecode p search theta encoder_outputs
       num_hyps_per_beam_override init_cb pre_cb post_cb =
     search (if 0 < num_hyps_per_beam_override then num_hyps_per_beam_override
             else num_hyps_per_beam p)
       theta encoder_outputs init_cb pre_cb post_cb"

text \<open>The six assignments of the constructor, as one update of the params object.\<close>

definition targets_propagated ::
  "('h, 't, 'x) BaseBeamSearchDecoder_Params_scheme
     \<Rightarrow> ('h, 't, 'x) BaseBeamSearchDecoder_Params_scheme" where
  "targets_propagated q =
     q\<lparr>beam_search := (beam_search q)
          \<lparr>target_sos_id := target_sos_id q, target_eos_id := target_eos_id q,
           target_seq_len := target_seq_len q\<rparr>,
       target_sequence_sampler := (target_sequence_sampler q)
          \<lparr>target_sos_id := target_sos_id q, target_eos_id := target_eos_id q,
           target_seq_len := target_seq_len q\<rparr>\<rparr>"

subsection \<open>A concrete decoder\<close>

text \<open>
  An instance of a subclass that overrides \<open>ComputePredictions\<close> and \<open>ComputeLoss\<close> and
  defines the three callbacks, over natural numbers, with params whose
  sub-configurations hold values of their own. The theorems below are run on it.
\<close>

definition example_params :: "(unit, unit) BaseBeamSearchDecoder_Params" where
  "example_params =
     \<lparr>target_sos_id = 1, target_eos_id = 2, target_seq_len = 50, packed_input = False,
      beam_search = \<lparr>target_sos_id = 11, target_eos_id = 12, target_seq_len = 13,
                     num_hyps_per_beam = 8\<rparr>,
      target_sequence_sampler = \<lparr>target_sos_id = 21, target_eos_id = 22,
                                 target_seq_len = 23\<rparr>\<rparr>"

definition example_state ::
  "((unit, unit) BaseBeamSearchDecoder_Params, nat, string, nat) state" where
  "example_state = \<lparr>heap = (\<lambda>a. example_params), calls = [], world = 0\<rparr>"

definition example_search ::
  "int \<Rightarrow> nat \<Rightarrow> nat \<Rightarrow> string \<Rightarrow> string \<Rightarrow> string \<Rightarrow> (nat, nat) extern" where
  "example_search k theta encoder_outputs init_cb pre_cb post_cb w =
     (Inr (nat k + theta + encoder_outputs), Suc w)"

text \<open>The classes of the two child layers of the concrete decoder.\<close>

definition example_new_beam_search ::
  "BeamSearchHelper_Params \<Rightarrow> (nat, (nat, string, nat) BeamSearchHelper) extern" where
  "example_new_beam_search child_params w =
     (Inr (BeamSearchHelper_BeamSearchDecode child_params example_search), Suc w)"

definition example_sample :: "(nat, string, nat) TargetSequenceSampler" where
  "example_sample theta encoder_outputs random_seed init_cb pre_cb post_cb w =
     (Inr (encoder_outputs + random_seed), Suc w)"

definition example_new_sampler ::
  "target_params \<Rightarrow> (nat, (nat, string, nat) TargetSequenceSampler) extern" where
  "example_new_sampler child_params w = (Inr example_sample, Suc w)"

definition example_decoder :: "(nat, string, nat) BaseBeamSearchDecoder" where
  "example_decoder =
     \<lparr>class_repr = ''ExampleDecoder'', self_params = 0, self_theta = 7,
      ComputePredictions_override = Some (\<lambda>theta e t w. (Inr (e + t), Suc w)),
      ComputeLoss_override = Some (\<lambda>theta p t w. (Inr (2 * p, t), Suc w)),
      AddExtraDecodingInfo_override = None,
      InitBeamSearchStateCallback = Some ''init'',
      PreBeamSearchStepCallback = Some ''pre'',
      PostBeamSearchStepCallback = Some ''post'',
      self_beam_search = (\<lambda>theta e n. example_search n theta e),
      self_target_sequence_sampler = example_sample\<rparr>"

text \<open>
  The constructor of the base class is in lingvo/core/base_layer.py, which is not
  among the sources: it is an argument of \<open>BaseBeamSearchDecoder_init\<close>. Two base
  layers to run the constructor with: the first binds \<open>self.params\<close> to the params
  object it is given, the second to a copy of that object at the address \<open>fresh\<close>.
\<close>

definition example_keeping_base_layer ::
  "('v, 'w, 'z) BaseDecoder_scheme \<Rightarrow> addr \<Rightarrow> ('p, 'v, 'c, 'w) state
     \<Rightarrow> (error + ('v, 'w, 'z) BaseDecoder_scheme) \<times> ('p, 'v, 'c, 'w) state" where
  "example_keeping_base_layer self params_arg s =
     (Inr (self\<lparr>self_params := params_arg\<rparr>), s)"

definition example_copying_base_layer ::
  "addr \<Rightarrow> ('v, 'w, 'z) BaseDecoder_scheme \<Rightarrow> addr \<Rightarrow> ('p, 'v, 'c, 'w) state
     \<Rightarrow> (error + ('v, 'w, 'z) BaseDecoder_scheme) \<times> ('p, 'v, 'c, 'w) state" where
  "example_copying_base_layer fresh self params_arg s =
     (Inr (self\<lparr>self_params := fresh\<rparr>),
      s\<lparr>heap := (heap s)(fresh := heap s params_arg)\<rparr>)"

section \<open>Basic facts\<close>

lemma invoke_eq:
  "invoke c f s = (fst (f (world s)), s\<lparr>calls := calls s @ [c], world := snd (f (world s))\<rparr>)"
  by (simp add: invoke_def split: prod.splits)

lemma heap_invoke: "heap (snd (invoke c f s)) = heap s"
  by (simp add: invoke_eq)

lemma getattr_Some: "getattr name (Some x) = Inr x"
  by (simp add: getattr_def)

lemma getattr_None: "getattr name None = Inl (AttributeError name)"
  by (simp add: getattr_def)

lemma BeamSearchDecodeWithTheta_invoke:
  assumes "InitBeamSearchStateCallback self = Some init_cb"
      and "PreBeamSearchStepCallback self = Some pre_cb"
      and "PostBeamSearchStepCallback self = Some post_cb"
  shows "BeamSearchDecodeWithTheta self theta encoder_outputs n s =
           invoke (BeamSearchDecode_call theta encoder_outputs (default_arg 0 n)
                     init_cb pre_cb post_cb)
             (self_beam_search self theta encoder_outputs (default_arg 0 n)
                init_cb pre_cb post_cb) s"
  using assms by (simp add: BeamSearchDecodeWithTheta_def getattr_Some Let_def)

lemma SampleTargetSequences_invoke:
  assumes "InitBeamSearchStateCallback self = Some init_cb"
      and "PreBeamSearchStepCallback self = Some pre_cb"
      and "PostBeamSearchStepCallback self = Some post_cb"
  shows "SampleTargetSequences self theta encoder_outputs random_seed s =
           invoke (Sample_call theta encoder_outputs random_seed init_cb pre_cb post_cb)
             (self_target_sequence_sampler self theta encoder_outputs random_seed
                init_cb pre_cb post_cb) s"
  using assms by (simp add: SampleTargetSequences_def getattr_Some)

lemma heap_ComputePredictions:
  "heap (snd (ComputePredictions self theta encoder_outputs targets s)) = heap s"
  by (simp add: ComputePredictions_def heap_invoke)

lemma heap_ComputeLoss:
  "heap (snd (ComputeLoss self theta preds targets s)) = heap s"
  by (simp add: ComputeLoss_def heap_invoke)

lemma heap_FProp: "heap (snd (FProp self theta encoder_outputs targets s)) = heap s"
proof (cases "ComputePredictions self theta encoder_outputs targets s")
  case (Pair r s1)
  have h1: "heap s1 = heap s"
    using heap_ComputePredictions [of self theta encoder_outputs targets s] Pair by simp
  show ?thesis
  proof (cases r)
    case (Inl e)
    with Pair h1 show ?thesis by (simp add: FProp_def)
  next
    case (Inr preds)
    obtain r2 s2 where cl: "ComputeLoss self theta preds targets s1 = (r2, s2)"
      by (cases "ComputeLoss self theta preds targets s1")
    have h2: "heap s2 = heap s1"
      using heap_ComputeLoss [of self theta preds targets s1] cl by simp
    from Pair Inr cl h1 h2 show ?thesis
      by (cases r2) (auto simp: FProp_def)
  qed
qed

lemma heap_AddExtraDecodingInfo:
  "heap (snd (AddExtraDecodingInfo self encoder_outputs targets s)) = heap s"
  by (simp add: AddExtraDecodingInfo_def heap_invoke)

lemma heap_BeamSearchDecodeWithTheta:
  "heap (snd (BeamSearchDecodeWithTheta self theta encoder_outputs n s)) = heap s"
  by (simp add: BeamSearchDecodeWithTheta_def getattr_def heap_invoke Let_def split: option.splits)

lemma heap_BeamSearchDecode:
  "heap (snd (BeamSearchDecode self encoder_outputs n s)) = heap s"
  by (simp add: BeamSearchDecode_def heap_BeamSearchDecodeWithTheta)

lemma heap_SampleTargetSequences:
  "heap (snd (SampleTargetSequences self theta encoder_outputs random_seed s)) = heap s"
  by (simp add: SampleTargetSequences_def getattr_def heap_invoke split: option.splits)

lemma heap_exec: "heap (exec self x s) = heap s"
  by (cases x)
     (simp_all add: heap_FProp heap_ComputePredictions heap_ComputeLoss
        heap_AddExtraDecodingInfo heap_BeamSearchDecode heap_BeamSearchDecodeWithTheta
        heap_SampleTargetSequences)

lemma heap_execs: "heap (execs self ops s) = heap s"
  unfolding execs_def by (induction ops arbitrary: s) (simp_all add: heap_exec)

section \<open>FProp\<close>

text \<open>
  Claim C1. \<open>FProp\<close> calls \<open>ComputePredictions(theta, encoder_outputs, targets)\<close> first,
  then \<open>ComputeLoss(theta, predictions, targets)\<close> on the predictions the first call
  returned and in the world it left, and returns the \<open>DecoderOutput\<close> whose \<open>metrics\<close>
  and \<open>per_sequence\<close> are the two outputs of \<open>ComputeLoss\<close> and whose \<open>predictions\<close>
  is the output of \<open>ComputePredictions\<close>. These are the only two calls, and the params
  are left alone. The hypotheses say that the two methods return.
\<close>

theorem FProp_composes:
  assumes "ComputePredictions_method self theta encoder_outputs targets (world s)
             = (Inr preds, w1)"
      and "ComputeLoss_method self theta preds targets w1 = (Inr (mets, per_seq), w2)"
  shows "FProp self theta encoder_outputs targets s =
           (Inr \<lparr>metrics = mets, predictions = preds, per_sequence = per_seq\<rparr>,
            s\<lparr>calls := calls s @ [ComputePredictions_call theta encoder_outputs targets,
                                  ComputeLoss_call theta preds targets],
              world := w2\<rparr>)"
  using assms by (simp add: FProp_def ComputePredictions_def ComputeLoss_def invoke_eq)

theorem FProp_composes_witness:
  "FProp example_decoder 1 2 3 example_state =
     (Inr \<lparr>metrics = 10, predictions = 5, per_sequence = 3\<rparr>,
      example_state\<lparr>calls := [ComputePredictions_call 1 2 3, ComputeLoss_call 1 5 3],
                    world := 2\<rparr>)"
proof -
  have cp: "ComputePredictions_method example_decoder 1 2 3 (world example_state)
              = (Inr 5, 1)"
    by (simp add: ComputePredictions_method_def example_decoder_def example_state_def)
  have cl: "ComputeLoss_method example_decoder 1 5 3 1 = (Inr (10, 3), 2)"
    by (simp add: ComputeLoss_method_def example_decoder_def)
  show ?thesis
    using FProp_composes [OF cp cl] by (simp add: example_state_def)
qed

text \<open>
  When one of the two methods raises, \<open>FProp\<close> raises the same exception; after
  \<open>ComputePredictions\<close> has raised, \<open>ComputeLoss\<close> is not called.
\<close>

lemma FProp_ComputePredictions_raises:
  assumes "ComputePredictions_method self theta encoder_outputs targets (world s)
             = (Inl e, w1)"
  shows "FProp self theta encoder_outputs targets s =
           (Inl e, s\<lparr>calls := calls s @ [ComputePredictions_call theta encoder_outputs targets],
                     world := w1\<rparr>)"
  using assms by (simp add: FProp_def ComputePredictions_def invoke_eq)

lemma FProp_ComputeLoss_raises:
  assumes "ComputePredictions_method self theta encoder_outputs targets (world s)
             = (Inr preds, w1)"
      and "ComputeLoss_method self theta preds targets w1 = (Inl e, w2)"
  shows "FProp self theta encoder_outputs targets s =
           (Inl e, s\<lparr>calls := calls s @ [ComputePredictions_call theta encoder_outputs targets,
                                         ComputeLoss_call theta preds targets],
                     world := w2\<rparr>)"
  using assms by (simp add: FProp_def ComputePredictions_def ComputeLoss_def invoke_eq)

section \<open>Abstract methods\<close>

text \<open>
  Claim C4. On an instance whose class does not override them, \<open>ComputePredictions\<close>
  and \<open>ComputeLoss\<close> raise \<open>NotImplementedError\<close> whatever the arguments and the
  state, and change nothing but the record of calls. \<open>UpdateTargetVocabSize\<close> of
  \<open>BaseDecoder\<close> and of \<open>BaseBeamSearchDecoder\<close> raises \<open>NotImplementedError\<close>
  whatever the arguments.
\<close>

theorem abstract_methods_raise:
  "(ComputePredictions_override self = None \<longrightarrow>
      ComputePredictions self theta encoder_outputs targets s =
        (Inl (NotImplementedError (''Abstract method: '' @ class_repr self)),
         s\<lparr>calls := calls s @ [ComputePredictions_call theta encoder_outputs targets]\<rparr>)) \<and>
   (ComputeLoss_override self = None \<longrightarrow>
      ComputeLoss self theta preds targets s =
        (Inl (NotImplementedError (''Abstract method: '' @ class_repr self)),
         s\<lparr>calls := calls s @ [ComputeLoss_call theta preds targets]\<rparr>)) \<and>
   BaseDecoder_UpdateTargetVocabSize p vocab_size wpm_model =
     Inl (NotImplementedError ''Abstract method'') \<and>
   BaseBeamSearchDecoder_UpdateTargetVocabSize p vocab_size wpm_model =
     Inl (NotImplementedError ''Abstract method'')"
  by (simp add: ComputePredictions_def ComputeLoss_def ComputePredictions_method_def
        ComputeLoss_method_def BaseDecoder_ComputePredictions_def BaseDecoder_ComputeLoss_def
        BaseDecoder_UpdateTargetVocabSize_def BaseBeamSearchDecoder_UpdateTargetVocabSize_def
        invoke_eq)

theorem abstract_methods_raise_witness:
  "ComputePredictions
      (example_decoder\<lparr>ComputePredictions_override := None, ComputeLoss_override := None\<rparr>)
      1 2 3 example_state =
     (Inl (NotImplementedError ''Abstract method: ExampleDecoder''),
      example_state\<lparr>calls := [ComputePredictions_call 1 2 3]\<rparr>) \<and>
   ComputeLoss
      (example_decoder\<lparr>ComputePredictions_override := None, ComputeLoss_override := None\<rparr>)
      1 5 3 example_state =
     (Inl (NotImplementedError ''Abstract method: ExampleDecoder''),
      example_state\<lparr>calls := [ComputeLoss_call 1 5 3]\<rparr>) \<and>
   BaseDecoder_UpdateTargetVocabSize example_params (32000::nat) (Some ''wpm'') =
     Inl (NotImplementedError ''Abstract method'') \<and>
   BaseBeamSearchDecoder_UpdateTargetVocabSize example_params (32000::nat) (None :: string option) =
     Inl (NotImplementedError ''Abstract method'')"
  using abstract_methods_raise
    [of "example_decoder\<lparr>ComputePredictions_override := None, ComputeLoss_override := None\<rparr>"
        1 2 3 example_state 5 example_params "32000::nat" "Some ''wpm''"]
    abstract_methods_raise
    [of "example_decoder\<lparr>ComputePredictions_override := None, ComputeLoss_override := None\<rparr>"
        1 2 3 example_state 5 example_params "32000::nat" "None :: string option"]
  by (simp add: example_decoder_def example_state_def)

section \<open>AddExtraDecodingInfo\<close>

text \<open>
  Claim C3. When the class of the instance does not override it,
  \<open>AddExtraDecodingInfo\<close> returns \<open>encoder_outputs\<close> itself, whatever \<open>targets\<close> is, and
  changes nothing but the record of calls.
\<close>

theorem AddExtraDecodingInfo_identity:
  assumes "AddExtraDecodingInfo_override self = None"
  shows "AddExtraDecodingInfo self encoder_outputs targets s =
           (Inr encoder_outputs,
            s\<lparr>calls := calls s @ [AddExtraDecodingInfo_call encoder_outputs targets]\<rparr>)"
  using assms
  by (simp add: AddExtraDecodingInfo_def AddExtraDecodingInfo_method_def
        BaseBeamSearchDecoder_AddExtraDecodingInfo_def invoke_eq)

theorem AddExtraDecodingInfo_identity_witness:
  "AddExtraDecodingInfo example_decoder 4 9 example_state =
     (Inr 4, example_state\<lparr>calls := [AddExtraDecodingInfo_call 4 9]\<rparr>) \<and>
   AddExtraDecodingInfo example_decoder 4 0 example_state =
     (Inr 4, example_state\<lparr>calls := [AddExtraDecodingInfo_call 4 0]\<rparr>)"
proof -
  have h: "AddExtraDecodingInfo_override example_decoder = None"
    by (simp add: example_decoder_def)
  show ?thesis
    using AddExtraDecodingInfo_identity [OF h, of 4 9 example_state]
      AddExtraDecodingInfo_identity [OF h, of 4 0 example_state]
    by (simp add: example_state_def)
qed

section \<open>Beam search and sampling\<close>

text \<open>
  Claim C5. On an instance that has the three callbacks, \<open>BeamSearchDecodeWithTheta\<close>
  calls \<open>BeamSearchDecode\<close> of the beam-search child once, with \<open>theta\<close>,
  \<open>encoder_outputs\<close>, the override count (0 when the argument is left out) and the
  callbacks \<open>_InitBeamSearchStateCallback\<close>, \<open>_PreBeamSearchStepCallback\<close> and
  \<open>_PostBeamSearchStepCallback\<close> in this order, all as they are; it returns what the
  child returns or raises what the child raises, in the world the child left.
\<close>

theorem BeamSearchDecodeWithTheta_delegates:
  assumes "InitBeamSearchStateCallback self = Some init_cb"
      and "PreBeamSearchStepCallback self = Some pre_cb"
      and "PostBeamSearchStepCallback self = Some post_cb"
  shows "BeamSearchDecodeWithTheta self theta encoder_outputs (Some n) s =
           (fst (self_beam_search self theta encoder_outputs n init_cb pre_cb post_cb (world s)),
            s\<lparr>calls := calls s @
                   [BeamSearchDecode_call theta encoder_outputs n init_cb pre_cb post_cb],
              world := snd (self_beam_search self theta encoder_outputs n
                              init_cb pre_cb post_cb (world s))\<rparr>) \<and>
         BeamSearchDecodeWithTheta self theta encoder_outputs None s =
           (fst (self_beam_search self theta encoder_outputs 0 init_cb pre_cb post_cb (world s)),
            s\<lparr>calls := calls s @
                   [BeamSearchDecode_call theta encoder_outputs 0 init_cb pre_cb post_cb],
              world := snd (self_beam_search self theta encoder_outputs 0
                              init_cb pre_cb post_cb (world s))\<rparr>)"
  by (simp add: BeamSearchDecodeWithTheta_invoke [OF assms] invoke_eq default_arg_def)

theorem BeamSearchDecodeWithTheta_delegates_witness:
  "BeamSearchDecodeWithTheta example_decoder 1 2 (Some 4) example_state =
     (Inr 7, example_state\<lparr>calls := [BeamSearchDecode_call 1 2 4 ''init'' ''pre'' ''post''],
                           world := 1\<rparr>) \<and>
   BeamSearchDecodeWithTheta example_decoder 1 2 None example_state =
     (Inr 3, example_state\<lparr>calls := [BeamSearchDecode_call 1 2 0 ''init'' ''pre'' ''post''],
                           world := 1\<rparr>)"
proof -
  have i: "InitBeamSearchStateCallback example_decoder = Some ''init''"
    and p: "PreBeamSearchStepCallback example_decoder = Some ''pre''"
    and q: "PostBeamSearchStepCallback example_decoder = Some ''post''"
    by (simp_all add: example_decoder_def)
  show ?thesis
    using BeamSearchDecodeWithTheta_delegates [OF i p q, of 1 2 4 example_state]
    by (simp add: example_decoder_def example_state_def example_search_def)
qed

text \<open>
  An instance without one of the callbacks raises \<open>AttributeError\<close> when the
  arguments of the call are evaluated: the child is not called.
\<close>

lemma BeamSearchDecodeWithTheta_no_callback:
  assumes "InitBeamSearchStateCallback self = None"
  shows "BeamSearchDecodeWithTheta self theta encoder_outputs n s =
           (Inl (AttributeError ''_InitBeamSearchStateCallback''), s)"
  using assms by (simp add: BeamSearchDecodeWithTheta_def getattr_None)

lemma SampleTargetSequences_no_callback:
  assumes "InitBeamSearchStateCallback self = None"
  shows "SampleTargetSequences self theta encoder_outputs random_seed s =
           (Inl (AttributeError ''_InitBeamSearchStateCallback''), s)"
  using assms by (simp add: SampleTargetSequences_def getattr_None)

text \<open>
  Claim C6. On an instance that has the three callbacks, \<open>SampleTargetSequences\<close>
  calls \<open>Sample\<close> of the sampler child once, with \<open>theta\<close>, \<open>encoder_outputs\<close>,
  \<open>random_seed\<close> and the three callbacks, and returns what the child returns, in the
  world the child left. The callbacks of that call are those of the call that
  \<open>BeamSearchDecodeWithTheta\<close> makes to the beam-search child, whatever the other
  arguments and the states of the two calls.
\<close>

theorem SampleTargetSequences_delegates:
  assumes "InitBeamSearchStateCallback self = Some init_cb"
      and "PreBeamSearchStepCallback self = Some pre_cb"
      and "PostBeamSearchStepCallback self = Some post_cb"
  shows "SampleTargetSequences self theta encoder_outputs random_seed s =
           (fst (self_target_sequence_sampler self theta encoder_outputs random_seed
                   init_cb pre_cb post_cb (world s)),
            s\<lparr>calls := calls s @
                   [Sample_call theta encoder_outputs random_seed init_cb pre_cb post_cb],
              world := snd (self_target_sequence_sampler self theta encoder_outputs random_seed
                              init_cb pre_cb post_cb (world s))\<rparr>) \<and>
         callbacks_of (last (calls (snd (SampleTargetSequences self theta encoder_outputs
                                           random_seed s)))) =
           callbacks_of (last (calls (snd (BeamSearchDecodeWithTheta self theta'
                                             encoder_outputs' n s'))))"
  by (simp add: SampleTargetSequences_invoke [OF assms]
        BeamSearchDecodeWithTheta_invoke [OF assms] invoke_eq)

theorem SampleTargetSequences_delegates_witness:
  "SampleTargetSequences example_decoder 1 2 5 example_state =
     (Inr 7, example_state\<lparr>calls := [Sample_call 1 2 5 ''init'' ''pre'' ''post''],
                           world := 1\<rparr>) \<and>
   callbacks_of (last (calls (snd (SampleTargetSequences example_decoder 1 2 5 example_state))))
     = Some (''init'', ''pre'', ''post'') \<and>
   callbacks_of (last (calls (snd (BeamSearchDecodeWithTheta example_decoder 3 4 (Some 6)
                                     example_state))))
     = Some (''init'', ''pre'', ''post'')"
proof -
  have i: "InitBeamSearchStateCallback example_decoder = Some ''init''"
    and p: "PreBeamSearchStepCallback example_decoder = Some ''pre''"
    and q: "PostBeamSearchStepCallback example_decoder = Some ''post''"
    by (simp_all add: example_decoder_def)
  have w: "self_target_sequence_sampler example_decoder 1 2 5 ''init'' ''pre'' ''post''
             (world example_state) = (Inr 7, 1)"
    by (simp add: example_decoder_def example_state_def example_sample_def)
  show ?thesis
    using SampleTargetSequences_delegates [OF i p q, of 1 2 5 example_state 3 4 "Some 6"
      example_state] w
    by (simp add: example_state_def BeamSearchDecodeWithTheta_invoke [OF i p q] invoke_eq)
qed

text \<open>
  Claim C10. \<open>BeamSearchDecode(encoder_outputs, n)\<close> is
  \<open>BeamSearchDecodeWithTheta(self.theta, encoder_outputs, n)\<close>: the same result and the
  same state, also when they raise. In both, leaving the override out is passing 0.
\<close>

theorem BeamSearchDecode_is_WithTheta:
  "BeamSearchDecode self encoder_outputs n s =
     BeamSearchDecodeWithTheta self (self_theta self) encoder_outputs n s \<and>
   BeamSearchDecode self encoder_outputs None s =
     BeamSearchDecode self encoder_outputs (Some 0) s \<and>
   BeamSearchDecodeWithTheta self theta encoder_outputs None s =
     BeamSearchDecodeWithTheta self theta encoder_outputs (Some 0) s"
  by (cases n) (simp_all add: BeamSearchDecode_def BeamSearchDecodeWithTheta_def default_arg_def)

text \<open>
  Claim C7. The decoder hands the override to the beam-search child as it is, and
  the child decides what it means. With the beam-search helper as the child: a
  positive override is the number of hypotheses per beam of that call, any other
  override leaves the configured \<open>num_hyps_per_beam\<close> in use, the params are not
  changed by the call, and the next call without a positive override runs with the
  configured number again.
\<close>

theorem BeamSearchDecode_override:
  assumes "self_beam_search self = BeamSearchHelper_BeamSearchDecode p search"
      and "InitBeamSearchStateCallback self = Some init_cb"
      and "PreBeamSearchStepCallback self = Some pre_cb"
      and "PostBeamSearchStepCallback self = Some post_cb"
  shows "(0 < n \<longrightarrow>
            fst (BeamSearchDecode self encoder_outputs (Some n) s) =
              fst (search n (self_theta self) encoder_outputs init_cb pre_cb post_cb (world s)) \<and>
            world (snd (BeamSearchDecode self encoder_outputs (Some n) s)) =
              snd (search n (self_theta self) encoder_outputs init_cb pre_cb post_cb (world s))) \<and>
         (n \<le> 0 \<longrightarrow>
            fst (BeamSearchDecode self encoder_outputs (Some n) s) =
              fst (search (num_hyps_per_beam p) (self_theta self) encoder_outputs
                     init_cb pre_cb post_cb (world s)) \<and>
            world (snd (BeamSearchDecode self encoder_outputs (Some n) s)) =
              snd (search (num_hyps_per_beam p) (self_theta self) encoder_outputs
                     init_cb pre_cb post_cb (world s))) \<and>
         fst (BeamSearchDecode self encoder_outputs None s) =
           fst (search (num_hyps_per_beam p) (self_theta self) encoder_outputs
                  init_cb pre_cb post_cb (world s)) \<and>
         heap (snd (BeamSearchDecode self encoder_outputs (Some n) s)) = heap s \<and>
         (m \<le> 0 \<longrightarrow>
            fst (BeamSearchDecode self encoder_outputs' (Some m)
                   (snd (BeamSearchDecode self encoder_outputs (Some n) s))) =
              fst (search (num_hyps_per_beam p) (self_theta self) encoder_outputs'
                     init_cb pre_cb post_cb
                     (world (snd (BeamSearchDecode self encoder_outputs (Some n) s)))))"
  using assms(1)
  by (simp add: BeamSearchDecode_def BeamSearchDecodeWithTheta_invoke [OF assms(2-4)]
        invoke_eq default_arg_def BeamSearchHelper_BeamSearchDecode_def)

theorem BeamSearchDecode_override_witness:
  "fst (BeamSearchDecode
          (example_decoder\<lparr>self_beam_search :=
             BeamSearchHelper_BeamSearchDecode (beam_search example_params) example_search\<rparr>)
          2 (Some 4) example_state) = Inr 13 \<and>
   fst (BeamSearchDecode
          (example_decoder\<lparr>self_beam_search :=
             BeamSearchHelper_BeamSearchDecode (beam_search example_params) example_search\<rparr>)
          2 (Some (- 3)) example_state) = Inr 17 \<and>
   fst (BeamSearchDecode
          (example_decoder\<lparr>self_beam_search :=
             BeamSearchHelper_BeamSearchDecode (beam_search example_params) example_search\<rparr>)
          2 None example_state) = Inr 17 \<and>
   fst (BeamSearchDecode
          (example_decoder\<lparr>self_beam_search :=
             BeamSearchHelper_BeamSearchDecode (beam_search example_params) example_search\<rparr>)
          2 (Some 0)
          (snd (BeamSearchDecode
                  (example_decoder\<lparr>self_beam_search :=
                     BeamSearchHelper_BeamSearchDecode (beam_search example_params)
                       example_search\<rparr>)
                  2 (Some 4) example_state))) = Inr 17"
proof -
  let ?d = "example_decoder\<lparr>self_beam_search :=
              BeamSearchHelper_BeamSearchDecode (beam_search example_params) example_search\<rparr>"
  have b: "self_beam_search ?d =
             BeamSearchHelper_BeamSearchDecode (beam_search example_params) example_search"
    by simp
  have i: "InitBeamSearchStateCallback ?d = Some ''init''"
    and p: "PreBeamSearchStepCallback ?d = Some ''pre''"
    and q: "PostBeamSearchStepCallback ?d = Some ''post''"
    by (simp_all add: example_decoder_def)
  have t: "self_theta ?d = 7"
    by (simp add: example_decoder_def)
  have k: "num_hyps_per_beam (beam_search example_params) = 8"
    by (simp add: example_params_def)
  show ?thesis
    using BeamSearchDecode_override [OF b i p q, of 4 2 example_state 0 2]
      BeamSearchDecode_override [OF b i p q, of "- 3" 2 example_state 0 2]
    by (simp add: t k example_search_def)
qed

section \<open>The constructor\<close>

lemma target_fields_beam_search_update:
  "target_sos_id (q\<lparr>beam_search := b\<rparr>) = target_sos_id q"
  "target_eos_id (q\<lparr>beam_search := b\<rparr>) = target_eos_id q"
  "target_seq_len (q\<lparr>beam_search := b\<rparr>) = target_seq_len q"
  by (cases q, simp)+

lemma target_fields_sampler_update:
  "target_sos_id (q\<lparr>target_sequence_sampler := t\<rparr>) = target_sos_id q"
  "target_eos_id (q\<lparr>target_sequence_sampler := t\<rparr>) = target_eos_id q"
  "target_seq_len (q\<lparr>target_sequence_sampler := t\<rparr>) = target_seq_len q"
  by (cases q, simp)+

lemma targets_propagated_fields:
  "target_sos_id (targets_propagated q) = target_sos_id q"
  "target_eos_id (targets_propagated q) = target_eos_id q"
  "target_seq_len (targets_propagated q) = target_seq_len q"
  "target_sos_id (beam_search (targets_propagated q)) = target_sos_id q"
  "target_eos_id (beam_search (targets_propagated q)) = target_eos_id q"
  "target_seq_len (beam_search (targets_propagated q)) = target_seq_len q"
  "target_sos_id (target_sequence_sampler (targets_propagated q)) = target_sos_id q"
  "target_eos_id (target_sequence_sampler (targets_propagated q)) = target_eos_id q"
  "target_seq_len (target_sequence_sampler (targets_propagated q)) = target_seq_len q"
  by (simp_all add: targets_propagated_def target_fields_beam_search_update
        target_fields_sampler_update)

lemma init_returns:
  assumes "BaseBeamSearchDecoder_init super_init new_beam_search new_sampler self0 a s
             = (Inr self, s')"
  shows "\<exists>self1 s1. super_init self0 a s = (Inr self1, s1) \<and>
           self_params self = self_params self1 \<and>
           heap s' = (heap s1)(self_params self1 :=
                        targets_propagated (heap s1 (self_params self1)))"
proof -
  obtain r s1 where sup: "super_init self0 a s = (r, s1)"
    by (cases "super_init self0 a s")
  show ?thesis
  proof (cases r)
    case (Inl e)
    with sup assms show ?thesis by (simp add: BaseBeamSearchDecoder_init_def)
  next
    case (Inr self1)
    with sup assms show ?thesis
      by (auto simp: BaseBeamSearchDecoder_init_def Let_def CreateChild_def invoke_eq
            assign_def targets_propagated_def target_fields_beam_search_update
            target_fields_sampler_update split: sum.splits)
  qed
qed

text \<open>
  Claim C2. When the constructor returns, the sub-configurations \<open>beam_search\<close> and
  \<open>target_sequence_sampler\<close> of \<open>self.params\<close> hold the \<open>target_seq_len\<close>, \<open>target_sos_id\<close>
  and \<open>target_eos_id\<close> that \<open>self.params\<close> had when the constructor of the base class
  returned it, which \<open>self.params\<close> still has; and this stays so after any sequence
  of the operations of the module on the instance.
\<close>

theorem init_propagates_target_fields:
  assumes "BaseBeamSearchDecoder_init super_init new_beam_search new_sampler self0 a s
             = (Inr self, s')"
  shows "let p = self_params self;
             q0 = heap (snd (super_init self0 a s)) p;
             q = heap (execs self ops s') p
         in target_seq_len (beam_search q) = target_seq_len q0 \<and>
            target_sos_id (beam_search q) = target_sos_id q0 \<and>
            target_eos_id (beam_search q) = target_eos_id q0 \<and>
            target_seq_len (target_sequence_sampler q) = target_seq_len q0 \<and>
            target_sos_id (target_sequence_sampler q) = target_sos_id q0 \<and>
            target_eos_id (target_sequence_sampler q) = target_eos_id q0 \<and>
            target_seq_len q = target_seq_len q0 \<and>
            target_sos_id q = target_sos_id q0 \<and>
            target_eos_id q = target_eos_id q0"
proof -
  from init_returns [OF assms] obtain self1 s1 where
    sup: "super_init self0 a s = (Inr self1, s1)" and
    ref: "self_params self = self_params self1" and
    hp: "heap s' = (heap s1)(self_params self1 :=
                      targets_propagated (heap s1 (self_params self1)))"
    by blast
  have "heap (execs self ops s') (self_params self) =
          targets_propagated (heap s1 (self_params self))"
    by (simp add: heap_execs hp ref)
  with sup show ?thesis
    by (simp add: Let_def targets_propagated_fields)
qed

lemma example_init:
  "BaseBeamSearchDecoder_init example_keeping_base_layer example_new_beam_search example_new_sampler
     example_decoder 3 example_state =
     (Inr (example_decoder
             \<lparr>self_params := 3,
              self_beam_search := BeamSearchHelper_BeamSearchDecode
                \<lparr>target_sos_id = 1, target_eos_id = 2, target_seq_len = 50,
                 num_hyps_per_beam = 8\<rparr> example_search,
              self_target_sequence_sampler := example_sample\<rparr>),
      example_state
        \<lparr>heap := (\<lambda>a. example_params)(3 := targets_propagated example_params),
         calls := [CreateChild_call ''beam_search'',
                   CreateChild_call ''target_sequence_sampler''],
         world := 2\<rparr>)"
  by (simp add: BaseBeamSearchDecoder_init_def example_keeping_base_layer_def Let_def CreateChild_def
        invoke_eq assign_def targets_propagated_def example_new_beam_search_def
        example_new_sampler_def example_state_def example_params_def example_decoder_def)

theorem init_propagates_target_fields_witness:
  "target_seq_len (beam_search (heap (execs
       (example_decoder
          \<lparr>self_params := 3,
           self_beam_search := BeamSearchHelper_BeamSearchDecode
             \<lparr>target_sos_id = 1, target_eos_id = 2, target_seq_len = 50,
              num_hyps_per_beam = 8\<rparr> example_search,
           self_target_sequence_sampler := example_sample\<rparr>)
       [FProp_op 1 2 3, BeamSearchDecode_op 2 (Some 4), SampleTargetSequences_op 1 2 5]
       (snd (BaseBeamSearchDecoder_init example_keeping_base_layer example_new_beam_search
               example_new_sampler example_decoder 3 example_state))) 3)) = 50 \<and>
   target_sos_id (target_sequence_sampler (heap (execs
       (example_decoder
          \<lparr>self_params := 3,
           self_beam_search := BeamSearchHelper_BeamSearchDecode
             \<lparr>target_sos_id = 1, target_eos_id = 2, target_seq_len = 50,
              num_hyps_per_beam = 8\<rparr> example_search,
           self_target_sequence_sampler := example_sample\<rparr>)
       [FProp_op 1 2 3, BeamSearchDecode_op 2 (Some 4), SampleTargetSequences_op 1 2 5]
       (snd (BaseBeamSearchDecoder_init example_keeping_base_layer example_new_beam_search
               example_new_sampler example_decoder 3 example_state))) 3)) = 1"
proof -
  have q0: "heap (snd (example_keeping_base_layer example_decoder 3 example_state)) 3 = example_params"
    by (simp add: example_keeping_base_layer_def example_state_def)
  have p: "self_params (example_decoder
          \<lparr>self_params := 3,
           self_beam_search := BeamSearchHelper_BeamSearchDecode
             \<lparr>target_sos_id = 1, target_eos_id = 2, target_seq_len = 50,
              num_hyps_per_beam = 8\<rparr> example_search,
           self_target_sequence_sampler := example_sample\<rparr>) = 3"
    by simp
  have v: "target_seq_len example_params = 50" "target_sos_id example_params = 1"
    by (simp_all add: example_params_def)
  show ?thesis
    using init_propagates_target_fields [OF example_init,
      of "[FProp_op 1 2 3, BeamSearchDecode_op 2 (Some 4), SampleTargetSequences_op 1 2 5]"]
    by (simp add: Let_def p q0 v example_init)
qed

text \<open>
  A params object other than \<open>self.params\<close> is left as the constructor of the base
  class left it; so is the object the constructor was given, when the base layer
  bound \<open>self.params\<close> to a copy.
\<close>

lemma init_keeps_other_params:
  assumes "BaseBeamSearchDecoder_init super_init new_beam_search new_sampler self0 a s
             = (Inr self, s')"
      and "b \<noteq> self_params self"
  shows "heap s' b = heap (snd (super_init self0 a s)) b"
proof -
  from init_returns [OF assms(1)] obtain self1 s1 where
    "super_init self0 a s = (Inr self1, s1)" and
    "self_params self = self_params self1" and
    "heap s' = (heap s1)(self_params self1 :=
                  targets_propagated (heap s1 (self_params self1)))"
    by blast
  with assms(2) show ?thesis by simp
qed

lemma targets_propagated_discards:
  "targets_propagated
     (q\<lparr>beam_search := (beam_search q)
          \<lparr>target_sos_id := sos_a, target_eos_id := eos_a, target_seq_len := len_a\<rparr>,
        target_sequence_sampler := (target_sequence_sampler q)
          \<lparr>target_sos_id := sos_b, target_eos_id := eos_b, target_seq_len := len_b\<rparr>\<rparr>)
   = targets_propagated q"
  by (cases q) (simp add: targets_propagated_def)

text \<open>
  Claim C9, as amended. The constructor changes the params object \<open>self.params\<close>, the
  object the constructor of the base class bound to the instance (\<open>p\<close> of line 127),
  in place. When it returns, that object is the one the base class left with the six
  fields \<open>target_sos_id\<close>, \<open>target_eos_id\<close> and \<open>target_seq_len\<close> of \<open>beam_search\<close> and of
  \<open>target_sequence_sampler\<close> set to the values of the object's own three fields:
  every other field of the object and every other params object is as the base class
  left it. What the six fields held before has no effect on the object that results.
  The params object the constructor was given is changed only when it is
  \<open>self.params\<close> itself.
\<close>

theorem init_overwrites_six_fields_of_self_params:
  assumes "BaseBeamSearchDecoder_init super_init new_beam_search new_sampler self0 a s
             = (Inr self, s')"
  shows "let s1 = snd (super_init self0 a s);
             p = self_params self;
             q = heap s1 p;
             upd = (\<lambda>r. r
               \<lparr>beam_search := (beam_search r)
                  \<lparr>target_sos_id := target_sos_id r, target_eos_id := target_eos_id r,
                   target_seq_len := target_seq_len r\<rparr>,
                target_sequence_sampler := (target_sequence_sampler r)
                  \<lparr>target_sos_id := target_sos_id r, target_eos_id := target_eos_id r,
                   target_seq_len := target_seq_len r\<rparr>\<rparr>)
         in p = self_params (projr (fst (super_init self0 a s))) \<and>
            heap s' = (heap s1)(p := upd q) \<and>
            upd (q\<lparr>beam_search := (beam_search q)
                     \<lparr>target_sos_id := sos_a, target_eos_id := eos_a,
                      target_seq_len := len_a\<rparr>,
                   target_sequence_sampler := (target_sequence_sampler q)
                     \<lparr>target_sos_id := sos_b, target_eos_id := eos_b,
                      target_seq_len := len_b\<rparr>\<rparr>) = upd q \<and>
            (a \<noteq> p \<longrightarrow> heap s' a = heap s1 a)"
proof -
  from init_returns [OF assms] obtain self1 s1 where
    sup: "super_init self0 a s = (Inr self1, s1)" and
    ref: "self_params self = self_params self1" and
    hp: "heap s' = (heap s1)(self_params self1 :=
                      targets_propagated (heap s1 (self_params self1)))"
    by blast
  have upd: "targets_propagated = (\<lambda>r. r
               \<lparr>beam_search := (beam_search r)
                  \<lparr>target_sos_id := target_sos_id r, target_eos_id := target_eos_id r,
                   target_seq_len := target_seq_len r\<rparr>,
                target_sequence_sampler := (target_sequence_sampler r)
                  \<lparr>target_sos_id := target_sos_id r, target_eos_id := target_eos_id r,
                   target_seq_len := target_seq_len r\<rparr>\<rparr>)"
    by (rule ext) (simp add: targets_propagated_def)
  show ?thesis
    unfolding Let_def upd [symmetric]
    using sup ref hp by (simp add: targets_propagated_discards)
qed

lemma example_copy_init:
  "BaseBeamSearchDecoder_init (example_copying_base_layer 9) example_new_beam_search
     example_new_sampler example_decoder 3 example_state =
     (Inr (example_decoder
             \<lparr>self_params := 9,
              self_beam_search := BeamSearchHelper_BeamSearchDecode
                \<lparr>target_sos_id = 1, target_eos_id = 2, target_seq_len = 50,
                 num_hyps_per_beam = 8\<rparr> example_search,
              self_target_sequence_sampler := example_sample\<rparr>),
      example_state
        \<lparr>heap := (\<lambda>a. example_params)(9 := targets_propagated example_params),
         calls := [CreateChild_call ''beam_search'',
                   CreateChild_call ''target_sequence_sampler''],
         world := 2\<rparr>)"
  by (simp add: BaseBeamSearchDecoder_init_def example_copying_base_layer_def Let_def
        CreateChild_def invoke_eq assign_def targets_propagated_def
        example_new_beam_search_def example_new_sampler_def example_state_def
        example_params_def example_decoder_def)

theorem init_overwrites_six_fields_of_self_params_witness:
  "heap (snd (BaseBeamSearchDecoder_init (example_copying_base_layer 9)
                example_new_beam_search example_new_sampler example_decoder 3
                example_state)) 9 =
     \<lparr>target_sos_id = 1, target_eos_id = 2, target_seq_len = 50, packed_input = False,
      beam_search = \<lparr>target_sos_id = 1, target_eos_id = 2, target_seq_len = 50,
                     num_hyps_per_beam = 8\<rparr>,
      target_sequence_sampler = \<lparr>target_sos_id = 1, target_eos_id = 2,
                                 target_seq_len = 50\<rparr>\<rparr> \<and>
   heap (snd (BaseBeamSearchDecoder_init (example_copying_base_layer 9)
                example_new_beam_search example_new_sampler example_decoder 3
                example_state)) 3 = example_params \<and>
   heap (snd (BaseBeamSearchDecoder_init example_keeping_base_layer
                example_new_beam_search example_new_sampler example_decoder 3
                example_state)) 3 =
     \<lparr>target_sos_id = 1, target_eos_id = 2, target_seq_len = 50, packed_input = False,
      beam_search = \<lparr>target_sos_id = 1, target_eos_id = 2, target_seq_len = 50,
                     num_hyps_per_beam = 8\<rparr>,
      target_sequence_sampler = \<lparr>target_sos_id = 1, target_eos_id = 2,
                                 target_seq_len = 50\<rparr>\<rparr> \<and>
   heap (snd (BaseBeamSearchDecoder_init example_keeping_base_layer
                example_new_beam_search example_new_sampler example_decoder 3
                example_state)) 4 = example_params"
proof -
  have c: "snd (example_copying_base_layer 9 example_decoder 3 example_state) =
             example_state\<lparr>heap := (\<lambda>a. example_params)(9 := example_params)\<rparr>"
    by (simp add: example_copying_base_layer_def example_state_def)
  have k: "snd (example_keeping_base_layer example_decoder 3 example_state) = example_state"
    by (simp add: example_keeping_base_layer_def)
  have h: "heap example_state = (\<lambda>a. example_params)"
    by (simp add: example_state_def)
  show ?thesis
    using init_overwrites_six_fields_of_self_params [OF example_copy_init,
        where sos_a = 31 and eos_a = 32 and len_a = 33
          and sos_b = 41 and eos_b = 42 and len_b = 43]
      init_overwrites_six_fields_of_self_params [OF example_init,
        where sos_a = 31 and eos_a = 32 and len_a = 33
          and sos_b = 41 and eos_b = 42 and len_b = 43]
    by (simp add: Let_def c k h example_copy_init example_init targets_propagated_def
          example_params_def)
qed

text \<open>
  The claim as it was stated fails with a base layer that binds \<open>self.params\<close> to a
  copy: the constructor returns, and the params object it was given (at address 3)
  still has \<open>target_seq_len\<close> 50 with 13 in \<open>beam_search\<close> and 23 in
  \<open>target_sequence_sampler\<close>.
\<close>

theorem init_supplied_params_counterexample:
  "fst (BaseBeamSearchDecoder_init (example_copying_base_layer 9) example_new_beam_search
          example_new_sampler example_decoder 3 example_state) =
     Inr (example_decoder
            \<lparr>self_params := 9,
             self_beam_search := BeamSearchHelper_BeamSearchDecode
               \<lparr>target_sos_id = 1, target_eos_id = 2, target_seq_len = 50,
                num_hyps_per_beam = 8\<rparr> example_search,
             self_target_sequence_sampler := example_sample\<rparr>) \<and>
   target_seq_len (heap (snd (BaseBeamSearchDecoder_init (example_copying_base_layer 9)
                                example_new_beam_search example_new_sampler
                                example_decoder 3 example_state)) 3) = 50 \<and>
   target_seq_len (beam_search
     (heap (snd (BaseBeamSearchDecoder_init (example_copying_base_layer 9)
                   example_new_beam_search example_new_sampler
                   example_decoder 3 example_state)) 3)) = 13 \<and>
   target_seq_len (target_sequence_sampler
     (heap (snd (BaseBeamSearchDecoder_init (example_copying_base_layer 9)
                   example_new_beam_search example_new_sampler
                   example_decoder 3 example_state)) 3)) = 23"
  by (simp add: example_copy_init) (simp add: example_params_def)

end
